theory Spec2Isabelle
  imports Complex_Main "HOL-Library.Multiset" "HOL-Library.Log_Nat"
begin

section \<open>JavaScript values used by the components\<close>

text \<open>
  A JavaScript number is \<open>NaN\<close>, an infinity, or a finite double, given here by its
  rational value (the two zeros are not told apart). Relational operators are false as
  soon as one operand is \<open>NaN\<close>.
\<close>

datatype jsnum = NaN | Num rat | Infinity | NegInfinity

fun js_lt :: "jsnum \<Rightarrow> jsnum \<Rightarrow> bool" where
  "js_lt (Num a) (Num b) = (a < b)"
| "js_lt NegInfinity (Num b) = True"
| "js_lt NegInfinity Infinity = True"
| "js_lt (Num a) Infinity = True"
| "js_lt _ _ = False"

fun js_le :: "jsnum \<Rightarrow> jsnum \<Rightarrow> bool" where
  "js_le (Num a) (Num b) = (a \<le> b)"
| "js_le NegInfinity NaN = False"
| "js_le NegInfinity _ = True"
| "js_le (Num a) Infinity = True"
| "js_le Infinity Infinity = True"
| "js_le _ _ = False"

fun js_gt :: "jsnum \<Rightarrow> jsnum \<Rightarrow> bool" where
  "js_gt (Num a) (Num b) = (a > b)"
| "js_gt (Num a) NegInfinity = True"
| "js_gt Infinity NegInfinity = True"
| "js_gt Infinity (Num b) = True"
| "js_gt _ _ = False"

fun js_ge :: "jsnum \<Rightarrow> jsnum \<Rightarrow> bool" where
  "js_ge (Num a) (Num b) = (a \<ge> b)"
| "js_ge NaN NegInfinity = False"
| "js_ge _ NegInfinity = True"
| "js_ge Infinity (Num b) = True"
| "js_ge Infinity Infinity = True"
| "js_ge _ _ = False"

text \<open>
  Subtraction is applied to time values only, and division to their difference and the
  length of a day (a non-zero constant); on finite operands both are taken exact.
\<close>

fun js_sub :: "jsnum \<Rightarrow> jsnum \<Rightarrow> jsnum" where
  "js_sub NaN y = NaN"
| "js_sub x NaN = NaN"
| "js_sub (Num a) (Num b) = Num (a - b)"
| "js_sub Infinity Infinity = NaN"
| "js_sub NegInfinity NegInfinity = NaN"
| "js_sub Infinity y = Infinity"
| "js_sub NegInfinity y = NegInfinity"
| "js_sub (Num a) Infinity = NegInfinity"
| "js_sub (Num a) NegInfinity = Infinity"

fun js_div :: "jsnum \<Rightarrow> rat \<Rightarrow> jsnum" where
  "js_div (Num a) k = Num (a / k)"
| "js_div NaN k = NaN"
| "js_div Infinity k = (if k < 0 then NegInfinity else Infinity)"
| "js_div NegInfinity k = (if k < 0 then Infinity else NegInfinity)"

fun Math_ceil :: "jsnum \<Rightarrow> jsnum" where
  "Math_ceil (Num a) = Num (of_int \<lceil>a\<rceil>)"
| "Math_ceil NaN = NaN"
| "Math_ceil Infinity = Infinity"
| "Math_ceil NegInfinity = NegInfinity"

subsection \<open>Multiplication of doubles\<close>

text \<open>
  The product of two doubles is their exact product rounded to the nearest double, ties
  to the even significand (IEEE 754 binary64: 53 significant bits, exponents from -1022
  to 1023, subnormals below, an infinity from \<open>2 ^ 1024\<close> on).
\<close>

definition pow2 :: "int \<Rightarrow> rat" where
  "pow2 e = (if 0 \<le> e then 2 ^ nat e else 1 / 2 ^ nat (- e))"

text \<open>The exponent \<open>e\<close> with \<open>2 ^ e \<le> m < 2 ^ (e + 1)\<close>, for a positive \<open>m\<close>.\<close>

definition floor_log2 :: "rat \<Rightarrow> int" where
  "floor_log2 m =
     (let (a, b) = quotient_of m; e0 = bitlen a - bitlen b
      in if pow2 e0 \<le> m then e0 else e0 - 1)"

definition round_half_even :: "rat \<Rightarrow> int" where
  "round_half_even x =
     (let f = \<lfloor>x\<rfloor>; d = x - of_int f
      in if d < 1 / 2 then f else if 1 / 2 < d then f + 1 else if even f then f else f + 1)"

definition round_double :: "rat \<Rightarrow> jsnum" where
  "round_double q =
     (if q = 0 then Num 0
      else
        let m = \<bar>q\<bar>;
            e = max (floor_log2 m) (- 1022);
            ulp = pow2 (e - 52);
            r = of_int (round_half_even (m / ulp)) * ulp
        in if pow2 1024 \<le> r then (if q < 0 then NegInfinity else Infinity)
           else Num (if q < 0 then - r else r))"

text \<open>A finite operand stands for the double nearest to it.\<close>

fun to_double :: "jsnum \<Rightarrow> jsnum" where
  "to_double (Num q) = round_double q"
| "to_double x = x"

fun is_zero :: "jsnum \<Rightarrow> bool" where
  "is_zero (Num a) = (a = 0)"
| "is_zero _ = False"

fun is_negative :: "jsnum \<Rightarrow> bool" where
  "is_negative (Num a) = (a < 0)"
| "is_negative NegInfinity = True"
| "is_negative _ = False"

fun times_double :: "jsnum \<Rightarrow> jsnum \<Rightarrow> jsnum" where
  "times_double NaN y = NaN"
| "times_double x NaN = NaN"
| "times_double (Num a) (Num b) = round_double (a * b)"
| "times_double x y =
     (if is_zero x \<or> is_zero y then NaN
      else if is_negative x = is_negative y then Infinity else NegInfinity)"

definition js_mul :: "jsnum \<Rightarrow> jsnum \<Rightarrow> jsnum" where
  "js_mul x y = times_double (to_double x) (to_double y)"

text \<open>
  A \<open>Date\<close> object holds a time value: an integral number of milliseconds since the
  epoch, or \<open>NaN\<close> for an invalid date. Dates are compared through their time values.
\<close>

datatype Date = Invalid_Date | TimeValue int

fun getTime :: "Date \<Rightarrow> jsnum" where
  "getTime Invalid_Date = NaN"
| "getTime (TimeValue t) = Num (of_int t)"

definition date_lt :: "Date \<Rightarrow> Date \<Rightarrow> bool" where
  "date_lt a b = js_lt (getTime a) (getTime b)"

definition date_le :: "Date \<Rightarrow> Date \<Rightarrow> bool" where
  "date_le a b = js_le (getTime a) (getTime b)"

definition date_gt :: "Date \<Rightarrow> Date \<Rightarrow> bool" where
  "date_gt a b = js_gt (getTime a) (getTime b)"

definition date_ge :: "Date \<Rightarrow> Date \<Rightarrow> bool" where
  "date_ge a b = js_ge (getTime a) (getTime b)"

text \<open>
  What the components take from the host: how \<open>new Date(string)\<close> reads a string, where
  local midnight lies (\<open>setHours(0, 0, 0, 0)\<close> depends on the time zone of the browser),
  how \<open>toISOString\<close> prints a valid time value, what
  \<open>sessionStorage.getItem('userId')\<close> returns (\<open>None\<close> for \<open>null\<close>), and the order in
  which the engine's \<open>sort\<close> leaves \<open>n\<close> elements when the comparator is not a consistent
  one (the language leaves that order to the implementation): given the comparator on the
  positions, the positions in their new order.
\<close>

record js_runtime =
  Date_parse :: "string \<Rightarrow> Date"
  localMidnight :: "int \<Rightarrow> int"
  toISOString :: "int \<Rightarrow> string"
  sessionStorage_userId :: "string option"
  implementation_order :: "(nat \<Rightarrow> nat \<Rightarrow> jsnum) \<Rightarrow> nat \<Rightarrow> nat list"

definition setHours0 :: "js_runtime \<Rightarrow> Date \<Rightarrow> Date" where
  "setHours0 rt d = (case d of Invalid_Date \<Rightarrow> Invalid_Date
                             | TimeValue t \<Rightarrow> TimeValue (localMidnight rt t))"

subsection \<open>Sorting an array with a comparator\<close>

text \<open>
  A comparator is consistent on the elements of an array when it never yields \<open>NaN\<close> on
  them and its three outcomes (zero, negative, positive) behave as an equivalence and two
  transitive orders.
\<close>

definition consistent_comparator :: "('a \<Rightarrow> 'a \<Rightarrow> jsnum) \<Rightarrow> 'a list \<Rightarrow> bool" where
  "consistent_comparator cmp xs =
     list_all (\<lambda>a. list_all (\<lambda>b. list_all (\<lambda>c.
         cmp a b \<noteq> NaN
       \<and> cmp a a = Num 0
       \<and> (cmp a b = Num 0 \<longrightarrow> cmp b a = Num 0)
       \<and> (cmp a b = Num 0 \<and> cmp b c = Num 0 \<longrightarrow> cmp a c = Num 0)
       \<and> (js_lt (cmp a b) (Num 0) \<and> js_lt (cmp b c) (Num 0) \<longrightarrow> js_lt (cmp a c) (Num 0))
       \<and> (js_gt (cmp a b) (Num 0) \<and> js_gt (cmp b c) (Num 0) \<longrightarrow> js_gt (cmp a c) (Num 0)))
       xs) xs) xs"

text \<open>
  Insertion that keeps equal elements in their order: \<open>x\<close> passes \<open>y\<close> exactly when the
  comparator is positive on \<open>(x, y)\<close>.
\<close>

fun sort_insert :: "('a \<Rightarrow> 'a \<Rightarrow> jsnum) \<Rightarrow> 'a \<Rightarrow> 'a list \<Rightarrow> 'a list" where
  "sort_insert cmp x [] = [x]"
| "sort_insert cmp x (y # ys) =
     (if js_gt (cmp x y) (Num 0) then y # sort_insert cmp x ys else x # y # ys)"

text \<open>
  \<open>Array.prototype.sort\<close> with a comparator. For a consistent comparator the sort is
  stable and its result is the one stable ordering, which insertion from the right
  computes. Otherwise the elements are left in the order the engine chooses, a
  rearrangement of the array.
\<close>

definition Array_sort :: "js_runtime \<Rightarrow> ('a \<Rightarrow> 'a \<Rightarrow> jsnum) \<Rightarrow> 'a list \<Rightarrow> 'a list" where
  "Array_sort rt cmp xs =
     (if consistent_comparator cmp xs then foldr (sort_insert cmp) xs []
      else
        let n = length xs;
            perm = implementation_order rt
                     (\<lambda>i j. if i < n \<and> j < n then cmp (xs ! i) (xs ! j) else NaN) n
        in if sort perm = [0..<n] then map (\<lambda>i. xs ! i) perm else xs)"

subsection \<open>A concrete host: UTC, ISO date strings\<close>

definition msPerDay :: int where
  "msPerDay = 86400000"

definition is_digit :: "char \<Rightarrow> bool" where
  "is_digit c = (48 \<le> (of_char c :: nat) \<and> (of_char c :: nat) \<le> 57)"

definition digits_value :: "string \<Rightarrow> int option" where
  "digits_value cs =
     (if cs \<noteq> [] \<and> list_all is_digit cs
      then Some (foldl (\<lambda>n c. 10 * n + (int (of_char c) - 48)) 0 cs)
      else None)"

definition InLeapYear :: "int \<Rightarrow> bool" where
  "InLeapYear y = (y mod 4 = 0 \<and> (y mod 100 \<noteq> 0 \<or> y mod 400 = 0))"

definition DayFromYear :: "int \<Rightarrow> int" where
  "DayFromYear y =
     365 * (y - 1970) + (y - 1969) div 4 - (y - 1901) div 100 + (y - 1601) div 400"

definition DaysInMonth :: "int \<Rightarrow> int \<Rightarrow> int" where
  "DaysInMonth y m =
     (if m = 2 then (if InLeapYear y then 29 else 28)
      else if m = 4 \<or> m = 6 \<or> m = 9 \<or> m = 11 then 30 else 31)"

definition DaysBeforeMonth :: "int \<Rightarrow> int \<Rightarrow> int" where
  "DaysBeforeMonth y m =
     [0, 31, 59, 90, 120, 151, 181, 212, 243, 273, 304, 334] ! nat (m - 1)
       + (if InLeapYear y \<and> 2 < m then 1 else 0)"

text \<open>
  The date-only form \<open>YYYY-MM-DD\<close> of the ECMAScript date-time string format, read as
  UTC midnight; this host takes every other string to be unparseable.
\<close>

definition iso_date :: "string \<Rightarrow> Date" where
  "iso_date s =
     (if length s = 10 \<and> s ! 4 = CHR ''-'' \<and> s ! 7 = CHR ''-'' then
        (case (digits_value (take 4 s), digits_value (take 2 (drop 5 s)),
               digits_value (drop 8 s)) of
           (Some y, Some m, Some d) \<Rightarrow>
             if 1 \<le> m \<and> m \<le> 12 \<and> 1 \<le> d \<and> d \<le> DaysInMonth y m
             then TimeValue ((DayFromYear y + DaysBeforeMonth y m + d - 1) * msPerDay)
             else Invalid_Date
         | _ \<Rightarrow> Invalid_Date)
      else Invalid_Date)"

definition pad :: "nat \<Rightarrow> int \<Rightarrow> string" where
  "pad w n = map (\<lambda>i. char_of (48 + nat ((n div 10 ^ (w - 1 - i)) mod 10))) [0..<w]"

text \<open>Year, month and day of a day number (days since the epoch, proleptic Gregorian).\<close>

definition civil_from_days :: "int \<Rightarrow> int \<times> int \<times> int" where
  "civil_from_days z0 =
     (let z = z0 + 719468;
          era = z div 146097;
          doe = z - era * 146097;
          yoe = (doe - doe div 1460 + doe div 36524 - doe div 146096) div 365;
          doy = doe - (365 * yoe + yoe div 4 - yoe div 100);
          mp = (5 * doy + 2) div 153;
          d = doy - (153 * mp + 2) div 5 + 1;
          m = (if mp < 10 then mp + 3 else mp - 9);
          y = yoe + era * 400 + (if m \<le> 2 then 1 else 0)
      in (y, m, d))"

definition utc_toISOString :: "int \<Rightarrow> string" where
  "utc_toISOString t =
     (let (y, m, d) = civil_from_days (t div msPerDay);
          r = t mod msPerDay;
          year = (if 0 \<le> y \<and> y \<le> 9999 then pad 4 y
                  else (if y < 0 then ''-'' else ''+'') @ pad 6 \<bar>y\<bar>)
      in year @ ''-'' @ pad 2 m @ ''-'' @ pad 2 d @ ''T''
           @ pad 2 (r div 3600000) @ '':'' @ pad 2 (r div 60000 mod 60) @ '':''
           @ pad 2 (r div 1000 mod 60) @ ''.'' @ pad 3 (r mod 1000) @ ''Z'')"

definition utc :: js_runtime where
  "utc = \<lparr> Date_parse = iso_date,
           localMidnight = (\<lambda>t. t - t mod msPerDay),
           toISOString = utc_toISOString,
           sessionStorage_userId = Some ''42'',
           implementation_order = (\<lambda>cmp n. foldr (sort_insert cmp) [0..<n] []) \<rparr>"

section \<open>Date-range rules and pricing (property details)\<close>

text \<open>
  The value of a date control of a reactive form: \<open>None\<close> is the empty control
  (\<open>null\<close> or the empty string, both falsy), \<open>Some d\<close> a \<open>Date\<close> object.
\<close>

record DateForm =
  checkinDate_value :: "Date option"
  checkoutDate_value :: "Date option"
  hasExtraCot_value :: bool
  hasDeepClean_value :: bool
  checkinDate_touched :: bool
  checkoutDate_touched :: bool
  hasExtraCot_touched :: bool
  hasDeepClean_touched :: bool

text \<open>\<open>FormGroup.reset()\<close>: every control empty and untouched.\<close>

definition form_reset :: DateForm where
  "form_reset = \<lparr> checkinDate_value = None, checkoutDate_value = None,
       hasExtraCot_value = False, hasDeepClean_value = False,
       checkinDate_touched = False, checkoutDate_touched = False,
       hasExtraCot_touched = False, hasDeepClean_touched = False \<rparr>"

text \<open>\<open>markFormGroupTouched\<close>: every control of the group is marked as touched.\<close>

definition markFormGroupTouched :: "DateForm \<Rightarrow> DateForm" where
  "markFormGroupTouched form =
     form\<lparr> checkinDate_touched := True, checkoutDate_touched := True,
           hasExtraCot_touched := True, hasDeepClean_touched := True \<rparr>"

text \<open>
  The error object a group validator returns: \<open>None\<close> is \<open>null\<close>; a key that is
  absent from the object reads as false.
\<close>

record ValidationErrors =
  invalidDateRange :: bool
  pastDate :: bool

text \<open>\<open>dateRangeValidator\<close> of the property-details component; \<open>now\<close> is the
  time value of \<open>new Date()\<close>.\<close>

definition dateRangeValidator :: "js_runtime \<Rightarrow> int \<Rightarrow> DateForm \<Rightarrow> ValidationErrors option" where
  "dateRangeValidator rt now form =
     (case (checkinDate_value form, checkoutDate_value form) of
        (Some checkin, Some checkout) \<Rightarrow>
          if date_le checkout checkin
          then Some \<lparr> invalidDateRange = True, pastDate = False \<rparr>
          else
            let today = setHours0 rt (TimeValue now)
            in if date_lt checkin today
               then Some \<lparr> invalidDateRange = False, pastDate = True \<rparr>
               else None
      | _ \<Rightarrow> None)"

text \<open>\<open>errors?.['invalidDateRange']\<close> and \<open>errors?.['pastDate']\<close>.\<close>

definition has_invalidDateRange :: "ValidationErrors option \<Rightarrow> bool" where
  "has_invalidDateRange e = (case e of None \<Rightarrow> False | Some v \<Rightarrow> invalidDateRange v)"

definition has_pastDate :: "ValidationErrors option \<Rightarrow> bool" where
  "has_pastDate e = (case e of None \<Rightarrow> False | Some v \<Rightarrow> pastDate v)"

definition calculateNights :: "js_runtime \<Rightarrow> string \<Rightarrow> string \<Rightarrow> jsnum" where
  "calculateNights rt checkinDate checkoutDate =
     (let cin = Date_parse rt checkinDate;
          cout = Date_parse rt checkoutDate;
          diff = js_sub (getTime cout) (getTime cin)
      in Math_ceil (js_div diff (1000 * 60 * 60 * 24)))"

text \<open>\<open>pricePerDay * nights\<close>.\<close>

definition calculateTotalPrice :: "jsnum \<Rightarrow> jsnum \<Rightarrow> jsnum" where
  "calculateTotalPrice pricePerDay nights = js_mul pricePerDay nights"

section \<open>Booking classification\<close>

record BookingResponse =
  bookingId :: int
  propertyId :: int
  propertyName :: string
  propertyImage :: string
  city :: string
  userId :: int
  username :: string
  checkinDate :: string
  checkoutDate :: string
  isPaymentStatus :: bool
  isBookingStatus :: string
  hasExtraCot :: bool
  hasDeepClean :: bool

text \<open>The two comparators the components pass: earliest check-in first, latest first.\<close>

definition checkinAscending :: "js_runtime \<Rightarrow> BookingResponse \<Rightarrow> BookingResponse \<Rightarrow> jsnum" where
  "checkinAscending rt a b =
     js_sub (getTime (Date_parse rt (checkinDate a))) (getTime (Date_parse rt (checkinDate b)))"

definition checkinDescending :: "js_runtime \<Rightarrow> BookingResponse \<Rightarrow> BookingResponse \<Rightarrow> jsnum" where
  "checkinDescending rt a b =
     js_sub (getTime (Date_parse rt (checkinDate b))) (getTime (Date_parse rt (checkinDate a)))"

text \<open>Fields the components share: the two messages, and the booking lists.\<close>

record Messages =
  errorMessage :: string
  successMessage :: string

record BookingViews = Messages +
  allBookings :: "BookingResponse list"
  upcomingBookings :: "BookingResponse list"
  pastBookings :: "BookingResponse list"

subsection \<open>The bookings view: upcoming, current, past\<close>

record MyBookingsComponent = BookingViews +
  currentBookings :: "BookingResponse list"
  isLoading :: bool
  isCancelling :: bool
  isModifying :: bool
  selectedBooking :: "BookingResponse option"
  showModifyDialog :: bool
  modifyForm :: DateForm

text \<open>The body of the \<open>forEach\<close> of \<open>processBookings\<close>; \<open>push\<close> appends.\<close>

definition MyBookings_classify ::
  "js_runtime \<Rightarrow> Date \<Rightarrow> BookingResponse \<Rightarrow> MyBookingsComponent \<Rightarrow> MyBookingsComponent" where
  "MyBookings_classify rt today booking s =
     (let checkin = setHours0 rt (Date_parse rt (checkinDate booking));
          checkout = setHours0 rt (Date_parse rt (checkoutDate booking))
      in if isBookingStatus booking = ''CONFIRMED'' \<or> isBookingStatus booking = ''PENDING'' then
           if date_gt checkin today then
             s\<lparr> upcomingBookings := upcomingBookings s @ [booking] \<rparr>
           else if date_le checkin today \<and> date_ge checkout today then
             s\<lparr> currentBookings := currentBookings s @ [booking] \<rparr>
           else
             s\<lparr> pastBookings := pastBookings s @ [booking] \<rparr>
         else
           s\<lparr> pastBookings := pastBookings s @ [booking] \<rparr>)"

definition MyBookings_processBookings ::
  "js_runtime \<Rightarrow> int \<Rightarrow> MyBookingsComponent \<Rightarrow> MyBookingsComponent" where
  "MyBookings_processBookings rt now s =
     (let today = setHours0 rt (TimeValue now);
          s1 = s\<lparr> upcomingBookings := [], pastBookings := [], currentBookings := [] \<rparr>;
          s2 = fold (MyBookings_classify rt today) (allBookings s1) s1;
          s3 = s2\<lparr> upcomingBookings := Array_sort rt (checkinAscending rt) (upcomingBookings s2) \<rparr>;
          s4 = s3\<lparr> pastBookings := Array_sort rt (checkinDescending rt) (pastBookings s3) \<rparr>
      in s4\<lparr> currentBookings := Array_sort rt (checkinAscending rt) (currentBookings s4) \<rparr>)"

subsection \<open>The dashboard: upcoming, past, recent\<close>

record ClientDashboardComponent = BookingViews +
  recentBookings :: "BookingResponse list"

definition ClientDashboard_classify ::
  "js_runtime \<Rightarrow> Date \<Rightarrow> BookingResponse \<Rightarrow> ClientDashboardComponent \<Rightarrow> ClientDashboardComponent" where
  "ClientDashboard_classify rt today booking s =
     (let checkin = setHours0 rt (Date_parse rt (checkinDate booking))
      in if (isBookingStatus booking = ''CONFIRMED'' \<or> isBookingStatus booking = ''PENDING'')
            \<and> date_ge checkin today then
           s\<lparr> upcomingBookings := upcomingBookings s @ [booking] \<rparr>
         else
           s\<lparr> pastBookings := pastBookings s @ [booking] \<rparr>)"

definition ClientDashboard_processBookings ::
  "js_runtime \<Rightarrow> int \<Rightarrow> ClientDashboardComponent \<Rightarrow> ClientDashboardComponent" where
  "ClientDashboard_processBookings rt now s =
     (let today = setHours0 rt (TimeValue now);
          s1 = s\<lparr> upcomingBookings := [], pastBookings := [] \<rparr>;
          s2 = fold (ClientDashboard_classify rt today) (allBookings s1) s1;
          s3 = s2\<lparr> upcomingBookings := Array_sort rt (checkinAscending rt) (upcomingBookings s2) \<rparr>;
          s4 = s3\<lparr> pastBookings := Array_sort rt (checkinDescending rt) (pastBookings s3) \<rparr>
      in s4\<lparr> recentBookings := take 5 (Array_sort rt (checkinDescending rt) (allBookings s4)) \<rparr>)"

subsection \<open>Predicates that describe the three buckets\<close>


definition in_upcoming :: "js_runtime \<Rightarrow> Date \<Rightarrow> BookingResponse \<Rightarrow> bool" where
  "in_upcoming rt today b =
     ((isBookingStatus b = ''CONFIRMED'' \<or> isBookingStatus b = ''PENDING'')
      \<and> date_gt (setHours0 rt (Date_parse rt (checkinDate b))) today)"

definition in_current :: "js_runtime \<Rightarrow> Date \<Rightarrow> BookingResponse \<Rightarrow> bool" where
  "in_current rt today b =
     ((isBookingStatus b = ''CONFIRMED'' \<or> isBookingStatus b = ''PENDING'')
      \<and> \<not> date_gt (setHours0 rt (Date_parse rt (checkinDate b))) today
      \<and> date_le (setHours0 rt (Date_parse rt (checkinDate b))) today
      \<and> date_ge (setHours0 rt (Date_parse rt (checkoutDate b))) today)"

definition in_past :: "js_runtime \<Rightarrow> Date \<Rightarrow> BookingResponse \<Rightarrow> bool" where
  "in_past rt today b = (\<not> in_upcoming rt today b \<and> \<not> in_current rt today b)"

definition in_dashboard_upcoming :: "js_runtime \<Rightarrow> Date \<Rightarrow> BookingResponse \<Rightarrow> bool" where
  "in_dashboard_upcoming rt today b =
     ((isBookingStatus b = ''CONFIRMED'' \<or> isBookingStatus b = ''PENDING'')
      \<and> date_ge (setHours0 rt (Date_parse rt (checkinDate b))) today)"

section \<open>Requests, timers and other effects\<close>

text \<open>
  The methods below return the new component state together with what they hand to the
  outside, in order: HTTP requests, navigation, timers, an uncaught exception. A request
  is named after its method and route; its payload is the request body or the path
  parameter.
\<close>

text \<open>The charge request: \<open>bookingId\<close> (when set), \<open>userId\<close>, \<open>accountNumber\<close>, \<open>amount\<close>.\<close>

datatype PaymentRequest = PaymentRequest "int option" jsnum "int list" jsnum

text \<open>The reservation request: \<open>propertyId\<close>, \<open>userId\<close>, \<open>checkinDate\<close>, \<open>checkoutDate\<close>,
  \<open>hasExtraCot\<close>, \<open>hasDeepClean\<close>.\<close>

datatype BookingRequest = BookingRequest int jsnum string string bool bool

text \<open>The modification request: \<open>bookingId\<close>, \<open>checkinDate\<close>, \<open>checkoutDate\<close>,
  \<open>hasExtraCot\<close>, \<open>hasDeepClean\<close>.\<close>

datatype ModifyBookingRequest = ModifyBookingRequest int string string bool bool

text \<open>The object the stepper hands to the payment page.\<close>

record PaymentData =
  pay_propertyId :: int
  pay_propertyName :: string
  pay_propertyImage :: string
  pay_propertyLocation :: string
  pay_pricePerNight :: jsnum
  pay_bookingId :: "int option"
  pay_checkinDate :: string
  pay_checkoutDate :: string
  pay_numberOfNights :: jsnum
  pay_maxGuests :: int
  pay_hasExtraCot :: bool
  pay_hasDeepClean :: bool
  pay_totalAmount :: jsnum
  pay_userId :: jsnum

datatype http_request =
    POST_alwaysTrue_payment PaymentRequest
  | POST_alwaysTrue_roomService PaymentData
  | POST_makeBooking BookingRequest
  | GET_viewBooking jsnum
  | DELETE_cancelBooking int
  | PUT_modifyBooking ModifyBookingRequest

datatype deferred = ClearErrorMessage | ClearSuccessMessage | NavigateTo string

datatype exn = RangeError

datatype effect =
    Http http_request
  | Navigate string "PaymentData option"
  | SetTimeout deferred nat
  | Uncaught exn

text \<open>What the server answers: the envelope of a response, or an HTTP error.\<close>

record ApiResponse =
  success :: bool
  message :: string

record HttpErrorResponse =
  status :: int
  error_message :: "string option"

datatype 'a response = Next 'a | Error HttpErrorResponse

text \<open>\<open>a || b\<close> on a string that may be absent: the empty string is falsy.\<close>

definition or_else :: "string option \<Rightarrow> string \<Rightarrow> string" where
  "or_else a b = (case a of None \<Rightarrow> b | Some m \<Rightarrow> if m = [] then b else m)"

text \<open>
  White space and line terminators of the language, as UTF-16 code units: what
  \<open>String.prototype.trim\<close> strips and \<open>parseInt\<close> skips.
\<close>

definition is_space :: "int \<Rightarrow> bool" where
  "is_space u =
     (u \<in> {9, 10, 11, 12, 13, 32, 160, 5760, 8232, 8233, 8239, 8287, 12288, 65279}
      \<or> (8192 \<le> u \<and> u \<le> 8202))"

text \<open>A string a user types, as its list of UTF-16 code units.\<close>

type_synonym utf16 = "int list"

definition code_units :: "string \<Rightarrow> utf16" where
  "code_units s = map of_char s"

definition trim :: "utf16 \<Rightarrow> utf16" where
  "trim s = rev (dropWhile is_space (rev (dropWhile is_space s)))"

text \<open>\<open>parseInt(s, 10)\<close>: leading white space, a sign, then the longest run of digits.\<close>

definition parseInt10 :: "string \<Rightarrow> jsnum" where
  "parseInt10 s =
     (let t = dropWhile (\<lambda>c. is_space (of_char c)) s;
          neg = (t \<noteq> [] \<and> hd t = CHR ''-'');
          u = (if t \<noteq> [] \<and> (hd t = CHR ''-'' \<or> hd t = CHR ''+'') then tl t else t);
          ds = takeWhile is_digit u
      in case digits_value ds of
           None \<Rightarrow> NaN
         | Some n \<Rightarrow> Num (of_int (if neg then - n else n)))"

text \<open>\<open>d.toISOString().split('T')[0]\<close>; \<open>toISOString\<close> throws on an invalid date.\<close>

definition isoDatePart :: "js_runtime \<Rightarrow> Date \<Rightarrow> exn + string" where
  "isoDatePart rt d =
     (case d of Invalid_Date \<Rightarrow> Inl RangeError
              | TimeValue t \<Rightarrow> Inr (takeWhile (\<lambda>c. c \<noteq> CHR ''T'') (toISOString rt t)))"

text \<open>
  \<open>FormGroup.invalid\<close>: both date controls carry \<open>Validators.required\<close>, the group
  carries the date-range validator (passed as \<open>errors\<close>).
\<close>

definition form_invalid :: "ValidationErrors option \<Rightarrow> DateForm \<Rightarrow> bool" where
  "form_invalid errors form =
     (checkinDate_value form = None \<or> checkoutDate_value form = None \<or> errors \<noteq> None)"

section \<open>The reservation stepper (property details)\<close>

text \<open>The fields of the loaded property that the stepper reads.\<close>

record PropertyDetails =
  prop_propertyId :: int
  prop_propertyName :: string
  prop_imageURL :: string
  prop_city :: string
  prop_state :: string
  prop_pricePerDay :: jsnum
  prop_maxNoOfGuests :: int

text \<open>\<open>currentStep\<close>: 0 = Dates, 1 = Services, 2 = Confirm.\<close>

record PropertyDetailsComponent = Messages +
  property :: "PropertyDetails option"
  currentStep :: nat
  showBookingForm :: bool
  bookingForm :: DateForm

definition PropertyDetails_showError ::
  "string \<Rightarrow> PropertyDetailsComponent \<Rightarrow> PropertyDetailsComponent \<times> effect list" where
  "PropertyDetails_showError msg s =
     (s\<lparr> errorMessage := msg, successMessage := '''' \<rparr>, [SetTimeout ClearErrorMessage 5000])"

definition openBookingForm :: "PropertyDetailsComponent \<Rightarrow> PropertyDetailsComponent" where
  "openBookingForm s =
     s\<lparr> showBookingForm := True, bookingForm := form_reset, currentStep := 0,
        errorMessage := '''' \<rparr>"

definition closeBookingForm :: "PropertyDetailsComponent \<Rightarrow> PropertyDetailsComponent" where
  "closeBookingForm s =
     s\<lparr> showBookingForm := False, bookingForm := form_reset, currentStep := 0,
        errorMessage := '''' \<rparr>"

definition previousStep :: "PropertyDetailsComponent \<Rightarrow> PropertyDetailsComponent" where
  "previousStep s = (if currentStep s > 0 then s\<lparr> currentStep := currentStep s - 1 \<rparr> else s)"

text \<open>\<open>bookRoomService\<close>: the add-on request goes out only when deep clean is chosen.\<close>

definition bookRoomService :: "PaymentData \<Rightarrow> effect list" where
  "bookRoomService paymentData =
     (if pay_hasDeepClean paymentData then [Http (POST_alwaysTrue_roomService paymentData)]
      else [])"

definition submitBooking ::
  "js_runtime \<Rightarrow> int \<Rightarrow> PropertyDetailsComponent \<Rightarrow> PropertyDetailsComponent \<times> effect list" where
  "submitBooking rt now s =
     (let form = bookingForm s in
      case (property s, checkinDate_value form, checkoutDate_value form) of
        (Some p, Some cin, Some cout) \<Rightarrow>
          if dateRangeValidator rt now form \<noteq> None then
            (s\<lparr> bookingForm := markFormGroupTouched form \<rparr>, [])
          else if or_else (sessionStorage_userId rt) [] = [] then
            (let (s1, es) = PropertyDetails_showError ''Please login first'' s
             in (s1, es @ [Navigate ''/home'' None]))
          else
            (case (isoDatePart rt cin, isoDatePart rt cout) of
               (Inr checkinStr, Inr checkoutStr) \<Rightarrow>
                 let nights = calculateNights rt checkinStr checkoutStr;
                     totalAmount = calculateTotalPrice (prop_pricePerDay p) nights;
                     paymentData =
                       \<lparr> pay_propertyId = prop_propertyId p,
                         pay_propertyName = prop_propertyName p,
                         pay_propertyImage = prop_imageURL p,
                         pay_propertyLocation = prop_city p @ '', '' @ prop_state p,
                         pay_pricePerNight = prop_pricePerDay p,
                         pay_bookingId = None,
                         pay_checkinDate = checkinStr,
                         pay_checkoutDate = checkoutStr,
                         pay_numberOfNights = nights,
                         pay_maxGuests = prop_maxNoOfGuests p,
                         pay_hasExtraCot = hasExtraCot_value form,
                         pay_hasDeepClean = hasDeepClean_value form,
                         pay_totalAmount = totalAmount,
                         pay_userId = parseInt10 (the (sessionStorage_userId rt)) \<rparr>
                 in (s, bookRoomService paymentData
                          @ [Navigate ''/client/payment-page'' (Some paymentData)])
             | _ \<Rightarrow> (s, [Uncaught RangeError]))
      | _ \<Rightarrow> (s\<lparr> bookingForm := markFormGroupTouched form \<rparr>, []))"

text \<open>
  \<open>nextStep\<close>. \<open>bookingForm.errors\<close> is what the group validator returned for the
  current values.
\<close>

definition nextStep ::
  "js_runtime \<Rightarrow> int \<Rightarrow> PropertyDetailsComponent \<Rightarrow> PropertyDetailsComponent \<times> effect list" where
  "nextStep rt now s =
     (let form = bookingForm s; errors = dateRangeValidator rt now form in
      if currentStep s = 0 then
        if checkinDate_value form = None \<or> checkoutDate_value form = None then
          (let (s1, es) =
                 PropertyDetails_showError ''Please select both check-in and check-out dates'' s
           in (s1\<lparr> bookingForm := form\<lparr> checkinDate_touched := True,
                                         checkoutDate_touched := True \<rparr> \<rparr>, es))
        else if has_invalidDateRange errors then
          PropertyDetails_showError ''Check-out date must be after check-in date'' s
        else if has_pastDate errors then
          PropertyDetails_showError ''Check-in date cannot be in the past'' s
        else (s\<lparr> currentStep := 1 \<rparr>, [])
      else if currentStep s = 1 then (s\<lparr> currentStep := 2 \<rparr>, [])
      else if currentStep s = 2 then submitBooking rt now s
      else (s, []))"

section \<open>The payment page: charge, then reserve\<close>

record PaymentPageComponent = Messages +
  paymentData :: "PaymentData option"
  accountNumber :: utf16
  isProcessing :: bool

definition PaymentPage_showError ::
  "string \<Rightarrow> PaymentPageComponent \<Rightarrow> PaymentPageComponent \<times> effect list" where
  "PaymentPage_showError msg s =
     (s\<lparr> errorMessage := msg, successMessage := '''' \<rparr>, [SetTimeout ClearErrorMessage 5000])"

definition PaymentPage_showSuccess :: "string \<Rightarrow> PaymentPageComponent \<Rightarrow> PaymentPageComponent" where
  "PaymentPage_showSuccess msg s = s\<lparr> successMessage := msg, errorMessage := '''' \<rparr>"

text \<open>The message \<open>handleError\<close> of the payment page derives from an HTTP error.\<close>

definition status_message :: "HttpErrorResponse \<Rightarrow> string" where
  "status_message error =
     (if status error = 0 then
        ''Cannot connect to server. Please check if the backend is running.''
      else if status error = 401 then ''Unauthorized. Please login again.''
      else if status error \<ge> 500 then ''Server error. Please try again later.''
      else or_else (error_message error) ''An unexpected error occurred.'')"

definition PaymentPage_handleError ::
  "HttpErrorResponse \<Rightarrow> PaymentPageComponent \<Rightarrow> PaymentPageComponent \<times> effect list" where
  "PaymentPage_handleError error s =
     (if status error = 0 then
        (s\<lparr> errorMessage :=
              ''Cannot connect to server. Please check if the backend is running.'' \<rparr>, [])
      else if status error = 401 then
        (s\<lparr> errorMessage := ''Unauthorized. Please login again.'' \<rparr>,
         [SetTimeout (NavigateTo ''/home'') 2000])
      else if status error \<ge> 500 then
        (s\<lparr> errorMessage := ''Server error. Please try again later.'' \<rparr>, [])
      else
        (s\<lparr> errorMessage := or_else (error_message error) ''An unexpected error occurred.'' \<rparr>,
         []))"

definition makeBooking :: "PaymentPageComponent \<Rightarrow> PaymentPageComponent \<times> effect list" where
  "makeBooking s =
     (case paymentData s of
        None \<Rightarrow> PaymentPage_showError ''Missing booking data for confirmation.'' s
      | Some pd \<Rightarrow>
          (s, [Http (POST_makeBooking
                 (BookingRequest (pay_propertyId pd) (pay_userId pd) (pay_checkinDate pd)
                    (pay_checkoutDate pd) (pay_hasExtraCot pd) (pay_hasDeepClean pd)))]))"

text \<open>The two callbacks of the reservation request.\<close>

definition makeBooking_next ::
  "ApiResponse \<Rightarrow> PaymentPageComponent \<Rightarrow> PaymentPageComponent \<times> effect list" where
  "makeBooking_next response s =
     (if success response then
        (PaymentPage_showSuccess ''Booking confirmed successfully!'' s,
         [SetTimeout (NavigateTo ''/client/my-bookings'') 2000])
      else PaymentPage_showError ''Booking confirmation failed.'' s)"

definition makeBooking_error ::
  "HttpErrorResponse \<Rightarrow> PaymentPageComponent \<Rightarrow> PaymentPageComponent \<times> effect list" where
  "makeBooking_error error s = PaymentPage_handleError error s"

definition processPayment :: "PaymentPageComponent \<Rightarrow> PaymentPageComponent \<times> effect list" where
  "processPayment s =
     (if accountNumber s = [] \<or> trim (accountNumber s) = [] then
        PaymentPage_showError ''Please enter your account number'' s
      else case paymentData s of
        None \<Rightarrow> PaymentPage_showError ''Payment data is missing'' s
      | Some pd \<Rightarrow>
          (s\<lparr> isProcessing := True, errorMessage := '''' \<rparr>,
           [Http (POST_alwaysTrue_payment
              (PaymentRequest
                 (case pay_bookingId pd of None \<Rightarrow> None
                                         | Some n \<Rightarrow> if n = 0 then None else Some n)
                 (pay_userId pd) (trim (accountNumber s)) (pay_totalAmount pd)))]))"

text \<open>The two callbacks of the charge request.\<close>

definition processPayment_next ::
  "bool \<Rightarrow> PaymentPageComponent \<Rightarrow> PaymentPageComponent \<times> effect list" where
  "processPayment_next isSuccessful s =
     (let (s1, es) =
            (if isSuccessful then
               makeBooking ((PaymentPage_showSuccess ''Payment processed successfully!'' s)
                              \<lparr> accountNumber := [] \<rparr>)
             else PaymentPage_showError ''Payment processing failed'' s)
      in (s1\<lparr> isProcessing := False \<rparr>, es))"

definition processPayment_error ::
  "HttpErrorResponse \<Rightarrow> PaymentPageComponent \<Rightarrow> PaymentPageComponent \<times> effect list" where
  "processPayment_error error s =
     (let (s1, es) = PaymentPage_handleError error s
      in (s1\<lparr> isProcessing := False \<rparr>, es))"

fun is_charge :: "effect \<Rightarrow> bool" where
  "is_charge (Http (POST_alwaysTrue_payment r)) = True"
| "is_charge _ = False"

fun is_reserve :: "effect \<Rightarrow> bool" where
  "is_reserve (Http (POST_makeBooking r)) = True"
| "is_reserve _ = False"

text \<open>
  One reservation attempt from the click to the last callback: \<open>charge\<close> is what the
  payment endpoint answers and \<open>reserve\<close> what the reservation endpoint answers; an answer
  is delivered only to a request that was issued, and after the method that issued it
  has returned.
\<close>

definition reservation_attempt ::
  "PaymentPageComponent \<Rightarrow> bool response \<Rightarrow> ApiResponse response
     \<Rightarrow> PaymentPageComponent \<times> effect list" where
  "reservation_attempt s charge reserve =
     (let (s1, e1) = processPayment s in
      if \<not> list_ex is_charge e1 then (s1, e1)
      else
        let (s2, e2) = (case charge of Next ok \<Rightarrow> processPayment_next ok s1
                                     | Error err \<Rightarrow> processPayment_error err s1) in
        if \<not> list_ex is_reserve e2 then (s2, e1 @ e2)
        else
          let (s3, e3) = (case reserve of Next r \<Rightarrow> makeBooking_next r s2
                                        | Error err \<Rightarrow> makeBooking_error err s2)
          in (s3, e1 @ e2 @ e3))"

section \<open>Cancelling and modifying a booking (bookings view)\<close>















section \<open>Concrete inputs\<close>

text \<open>The instant 2025-06-01T09:30:00Z.\<close>

definition example_now :: int where
  "example_now = 1748770200000"

text \<open>Check-in 2025-05-20, check-out 2025-05-18: inverted, and before 2025-06-01.\<close>

definition example_inverted_past_form :: DateForm where
  "example_inverted_past_form =
     \<lparr> checkinDate_value = Some (iso_date ''2025-05-20''),
       checkoutDate_value = Some (iso_date ''2025-05-18''),
       hasExtraCot_value = False, hasDeepClean_value = False,
       checkinDate_touched = True, checkoutDate_touched = True,
       hasExtraCot_touched = False, hasDeepClean_touched = False \<rparr>"

definition example_booking :: "int \<Rightarrow> string \<Rightarrow> string \<Rightarrow> string \<Rightarrow> BookingResponse" where
  "example_booking n st cin cout =
     \<lparr> bookingId = n, propertyId = 7, propertyName = ''Lake House'', propertyImage = '''',
       city = ''Pune'', userId = 42, username = ''asha'', checkinDate = cin,
       checkoutDate = cout, isPaymentStatus = True, isBookingStatus = st,
       hasExtraCot = False, hasDeepClean = False \<rparr>"

definition example_bookings :: "BookingResponse list" where
  "example_bookings =
     [example_booking 1 ''CONFIRMED'' ''2025-06-05'' ''2025-06-08'',
      example_booking 2 ''CONFIRMED'' ''2025-05-28'' ''2025-06-03'',
      example_booking 3 ''CONFIRMED'' ''2025-05-01'' ''2025-05-05'',
      example_booking 4 ''CANCELLED'' ''2030-01-01'' ''2030-01-05'',
      example_booking 5 ''PENDING'' ''2025-06-01'' ''2025-06-04'',
      example_booking 6 ''COMPLETED'' ''2025-04-10'' ''2025-04-12'',
      example_booking 7 ''PENDING'' ''2025-07-01'' ''2025-07-03'']"

definition example_view :: MyBookingsComponent where
  "example_view =
     \<lparr> errorMessage = '''', successMessage = '''', allBookings = example_bookings,
       upcomingBookings = [example_booking 3 ''CONFIRMED'' ''2025-05-01'' ''2025-05-05''],
       pastBookings = [], currentBookings = [], isLoading = False, isCancelling = False,
       isModifying = False, selectedBooking = None, showModifyDialog = False,
       modifyForm = form_reset \<rparr>"

definition example_dashboard :: ClientDashboardComponent where
  "example_dashboard =
     \<lparr> errorMessage = '''', successMessage = '''', allBookings = example_bookings,
       upcomingBookings = [], pastBookings = [], recentBookings = [] \<rparr>"

definition example_paymentData :: PaymentData where
  "example_paymentData =
     \<lparr> pay_propertyId = 7, pay_propertyName = ''Lake House'', pay_propertyImage = '''',
       pay_propertyLocation = ''Pune, Maharashtra'', pay_pricePerNight = Num 2000,
       pay_bookingId = None, pay_checkinDate = ''2025-01-10'',
       pay_checkoutDate = ''2025-01-13'', pay_numberOfNights = Num 3, pay_maxGuests = 4,
       pay_hasExtraCot = False, pay_hasDeepClean = False, pay_totalAmount = Num 6000,
       pay_userId = Num 42 \<rparr>"

definition example_page :: PaymentPageComponent where
  "example_page =
     \<lparr> errorMessage = '''', successMessage = '''', paymentData = Some example_paymentData,
       accountNumber = code_units ''ACC-1001'', isProcessing = False \<rparr>"

definition connection_refused :: HttpErrorResponse where
  "connection_refused = \<lparr> status = 0, error_message = None \<rparr>"

definition booking_created :: ApiResponse where
  "booking_created = \<lparr> success = True, message = ''Booking created'' \<rparr>"

definition booking_refused :: ApiResponse where
  "booking_refused = \<lparr> success = False, message = ''Property not available'' \<rparr>"

definition example_form :: "string \<Rightarrow> string \<Rightarrow> DateForm" where
  "example_form cin cout =
     \<lparr> checkinDate_value = Some (iso_date cin), checkoutDate_value = Some (iso_date cout),
       hasExtraCot_value = True, hasDeepClean_value = False,
       checkinDate_touched = True, checkoutDate_touched = True,
       hasExtraCot_touched = False, hasDeepClean_touched = False \<rparr>"

definition example_stepper :: "DateForm \<Rightarrow> PropertyDetailsComponent" where
  "example_stepper form =
     \<lparr> errorMessage = '''', successMessage = '''', property = None, currentStep = 0,
       showBookingForm = True, bookingForm = form \<rparr>"


text \<open>Seven bookings, one of them with a check-in that is not a date.\<close>

definition example_unparsed_bookings :: "BookingResponse list" where
  "example_unparsed_bookings =
     [example_booking 21 ''CONFIRMED'' ''2025-05-10'' ''2025-05-12'',
      example_booking 22 ''PENDING'' ''TBD'' ''TBD'',
      example_booking 23 ''CONFIRMED'' ''2025-07-10'' ''2025-07-12'',
      example_booking 24 ''COMPLETED'' ''2025-04-10'' ''2025-04-12'',
      example_booking 25 ''COMPLETED'' ''2025-03-10'' ''2025-03-12'',
      example_booking 26 ''COMPLETED'' ''2025-02-10'' ''2025-02-12'',
      example_booking 27 ''COMPLETED'' ''2025-01-10'' ''2025-01-12'']"

definition example_unparsed_dashboard :: ClientDashboardComponent where
  "example_unparsed_dashboard = example_dashboard\<lparr> allBookings := example_unparsed_bookings \<rparr>"

text \<open>A booking that checks in today and checks out two days before.\<close>

definition example_boundary_bookings :: "BookingResponse list" where
  "example_boundary_bookings = [example_booking 14 ''CONFIRMED'' ''2025-06-01'' ''2025-05-30'']"

definition example_boundary_view :: MyBookingsComponent where
  "example_boundary_view = example_view\<lparr> allBookings := example_boundary_bookings \<rparr>"

definition example_boundary_dashboard :: ClientDashboardComponent where
  "example_boundary_dashboard = example_dashboard\<lparr> allBookings := example_boundary_bookings \<rparr>"

section \<open>Verified properties\<close>

subsection \<open>Evaluation and comparison lemmas\<close>

lemmas utc_eval = utc_def iso_date_def digits_value_def is_digit_def DaysInMonth_def
  DayFromYear_def DaysBeforeMonth_def msPerDay_def InLeapYear_def

lemma date_cmp_simps [simp]:
  "date_le (TimeValue a) (TimeValue b) = (a \<le> b)"
  "date_lt (TimeValue a) (TimeValue b) = (a < b)"
  "date_gt (TimeValue a) (TimeValue b) = (a > b)"
  "date_ge (TimeValue a) (TimeValue b) = (a \<ge> b)"
  "date_le Invalid_Date d = False" "date_le d Invalid_Date = False"
  "date_lt Invalid_Date d = False" "date_lt d Invalid_Date = False"
  "date_gt Invalid_Date d = False" "date_gt d Invalid_Date = False"
  "date_ge Invalid_Date d = False" "date_ge d Invalid_Date = False"
  by (cases d; simp add: date_le_def date_lt_def date_gt_def date_ge_def)+

lemma pow2_pos [simp]: "0 < pow2 e"
  by (simp add: pow2_def)

lemma setHours0_simps [simp]:
  "setHours0 rt Invalid_Date = Invalid_Date"
  "setHours0 rt (TimeValue t) = TimeValue (localMidnight rt t)"
  by (simp_all add: setHours0_def)

subsection \<open>Rounding to a double\<close>

lemma round_half_even_int [simp]: "round_half_even (of_int z) = z"
  by (simp add: round_half_even_def)






text \<open>One tenth times three, as doubles, is 0.30000000000000004.\<close>

lemma js_mul_rounds:
  "js_mul (Num (1 / 10)) (Num 3) = Num (5404319552844596 / 18014398509481984)"
  by code_simp

subsection \<open>Night count and total price\<close>



subsection \<open>Date-range validation\<close>

text \<open>
  C3, as stated, fails: a pair that is both inverted and in the past reports
  \<open>invalidDateRange\<close> only. With check-in 2025-05-20, check-out 2025-05-18 and today
  2025-06-01 the check-in lies before today, and \<open>pastDate\<close> is not reported.
\<close>

theorem dateRangeValidator_one_violation_counterexample:
  "checkinDate_value example_inverted_past_form = Some (TimeValue 1747699200000)
   \<and> checkoutDate_value example_inverted_past_form = Some (TimeValue 1747526400000)
   \<and> date_le (TimeValue 1747526400000) (TimeValue 1747699200000)
   \<and> date_lt (TimeValue 1747699200000) (setHours0 utc (TimeValue example_now))
   \<and> has_invalidDateRange (dateRangeValidator utc example_now example_inverted_past_form)
   \<and> \<not> has_pastDate (dateRangeValidator utc example_now example_inverted_past_form)"
  by (simp add: example_inverted_past_form_def example_now_def dateRangeValidator_def
        has_invalidDateRange_def has_pastDate_def utc_eval)

text \<open>
  C3, amended. When both dates are present, \<open>invalidDateRange\<close> is reported exactly when
  check-out \<open>\<le>\<close> check-in, whatever the check-in's relation to today; \<open>pastDate\<close> is
  reported exactly when the range is not inverted and the check-in lies before the start
  of today; the two are never reported together.
\<close>

theorem dateRangeValidator_reports:
  assumes "checkinDate_value form = Some checkin" and "checkoutDate_value form = Some checkout"
  shows "has_invalidDateRange (dateRangeValidator rt now form) = date_le checkout checkin
     \<and> has_pastDate (dateRangeValidator rt now form)
         = (\<not> date_le checkout checkin \<and> date_lt checkin (setHours0 rt (TimeValue now)))
     \<and> \<not> (has_invalidDateRange (dateRangeValidator rt now form)
          \<and> has_pastDate (dateRangeValidator rt now form))"
  using assms
  by (simp add: dateRangeValidator_def has_invalidDateRange_def has_pastDate_def Let_def)

theorem dateRangeValidator_reports_witness:
  "checkinDate_value example_inverted_past_form = Some (iso_date ''2025-05-20'')
   \<and> checkoutDate_value example_inverted_past_form = Some (iso_date ''2025-05-18'')
   \<and> has_invalidDateRange (dateRangeValidator utc example_now example_inverted_past_form)
   \<and> \<not> has_pastDate (dateRangeValidator utc example_now example_inverted_past_form)"
proof -
  have a: "checkinDate_value example_inverted_past_form = Some (iso_date ''2025-05-20'')"
    by (simp add: example_inverted_past_form_def)
  have b: "checkoutDate_value example_inverted_past_form = Some (iso_date ''2025-05-18'')"
    by (simp add: example_inverted_past_form_def)
  have c: "date_le (iso_date ''2025-05-18'') (iso_date ''2025-05-20'')"
    by (simp add: utc_eval)
  from dateRangeValidator_reports [OF a b, of utc example_now] c a b
  show ?thesis by simp
qed

subsection \<open>Sorting\<close>

lemma mset_sort_insert: "mset (sort_insert cmp x xs) = add_mset x (mset xs)"
  by (induction xs) simp_all

lemma mset_insertion: "mset (foldr (sort_insert cmp) xs []) = mset xs"
  by (induction xs) (simp_all add: mset_sort_insert)

lemma mset_rearranged:
  assumes "sort ix = [0..<length xs]"
  shows "mset (map (\<lambda>i. xs ! i) ix) = mset xs"
proof -
  have "mset ix = mset [0..<length xs]"
    using assms mset_sort [of "\<lambda>i. i" ix] by simp
  then have "image_mset (\<lambda>i. xs ! i) (mset ix)
               = image_mset (\<lambda>i. xs ! i) (mset [0..<length xs])"
    by simp
  then have "mset (map (\<lambda>i. xs ! i) ix) = mset (map (\<lambda>i. xs ! i) [0..<length xs])"
    by simp
  then show ?thesis by (simp add: map_nth)
qed


lemma mset_Array_sort: "mset (Array_sort rt cmp xs) = mset xs"
proof (cases "consistent_comparator cmp xs")
  case True
  then show ?thesis by (simp add: Array_sort_def mset_insertion)
next
  case False
  define ix where "ix = implementation_order rt
      (\<lambda>i j. if i < length xs \<and> j < length xs then cmp (xs ! i) (xs ! j) else NaN) (length xs)"
  have "Array_sort rt cmp xs
          = (if sort ix = [0..<length xs] then map (\<lambda>i. xs ! i) ix else xs)"
    using False by (simp add: Array_sort_def Let_def ix_def)
  then show ?thesis
    using mset_rearranged [of ix xs] by (cases "sort ix = [0..<length xs]") simp_all
qed

lemma set_Array_sort [simp]: "set (Array_sort rt cmp xs) = set xs"
  using mset_Array_sort [of rt cmp xs] by (metis set_mset_mset)

lemma length_Array_sort [simp]: "length (Array_sort rt cmp xs) = length xs"
  using mset_Array_sort [of rt cmp xs] by (metis size_mset)






lemma date_ge_le: "date_ge a b = date_le b a"
  by (cases a; cases b; simp)

lemma date_le_not_gt: "date_le a b \<Longrightarrow> \<not> date_gt a b"
  by (cases a; cases b; simp)







subsection \<open>The classification loops as filters\<close>

lemma MyBookings_classify_step:
  "MyBookings_classify rt today b s =
     s\<lparr> upcomingBookings := upcomingBookings s @ filter (in_upcoming rt today) [b],
        pastBookings := pastBookings s @ filter (in_past rt today) [b],
        currentBookings := currentBookings s @ filter (in_current rt today) [b] \<rparr>"
  by (simp add: MyBookings_classify_def in_upcoming_def in_current_def in_past_def Let_def)

lemma fold_MyBookings_classify:
  "fold (MyBookings_classify rt today) bs s =
     s\<lparr> upcomingBookings := upcomingBookings s @ filter (in_upcoming rt today) bs,
        pastBookings := pastBookings s @ filter (in_past rt today) bs,
        currentBookings := currentBookings s @ filter (in_current rt today) bs \<rparr>"
proof (induction bs arbitrary: s)
  case Nil
  show ?case by simp
next
  case (Cons b bs)
  have "fold (MyBookings_classify rt today) (b # bs) s
          = fold (MyBookings_classify rt today) bs (MyBookings_classify rt today b s)"
    by simp
  also have "\<dots> = fold (MyBookings_classify rt today) bs
       (s\<lparr> upcomingBookings := upcomingBookings s @ filter (in_upcoming rt today) [b],
        pastBookings := pastBookings s @ filter (in_past rt today) [b],
        currentBookings := currentBookings s @ filter (in_current rt today) [b] \<rparr>)"
    by (simp only: MyBookings_classify_step)
  also have "\<dots> = s\<lparr> upcomingBookings := upcomingBookings s @ filter (in_upcoming rt today) (b # bs),
        pastBookings := pastBookings s @ filter (in_past rt today) (b # bs),
        currentBookings := currentBookings s @ filter (in_current rt today) (b # bs) \<rparr>"
    unfolding Cons.IH by simp
  finally show ?case .
qed

lemma MyBookings_processBookings_eq:
  "MyBookings_processBookings rt now s =
     s\<lparr> upcomingBookings := Array_sort rt (checkinAscending rt)
            (filter (in_upcoming rt (setHours0 rt (TimeValue now))) (allBookings s)),
        pastBookings := Array_sort rt (checkinDescending rt)
            (filter (in_past rt (setHours0 rt (TimeValue now))) (allBookings s)),
        currentBookings := Array_sort rt (checkinAscending rt)
            (filter (in_current rt (setHours0 rt (TimeValue now))) (allBookings s)) \<rparr>"
  unfolding MyBookings_processBookings_def Let_def fold_MyBookings_classify by simp

lemma ClientDashboard_classify_step:
  "ClientDashboard_classify rt today b s =
     s\<lparr> upcomingBookings := upcomingBookings s @ filter (in_dashboard_upcoming rt today) [b],
        pastBookings := pastBookings s
           @ filter (\<lambda>b. \<not> in_dashboard_upcoming rt today b) [b] \<rparr>"
  by (simp add: ClientDashboard_classify_def in_dashboard_upcoming_def Let_def)

lemma fold_ClientDashboard_classify:
  "fold (ClientDashboard_classify rt today) bs s =
     s\<lparr> upcomingBookings := upcomingBookings s @ filter (in_dashboard_upcoming rt today) bs,
        pastBookings := pastBookings s
           @ filter (\<lambda>b. \<not> in_dashboard_upcoming rt today b) bs \<rparr>"
proof (induction bs arbitrary: s)
  case Nil
  show ?case by simp
next
  case (Cons b bs)
  have "fold (ClientDashboard_classify rt today) (b # bs) s
          = fold (ClientDashboard_classify rt today) bs (ClientDashboard_classify rt today b s)"
    by simp
  also have "\<dots> = fold (ClientDashboard_classify rt today) bs
       (s\<lparr> upcomingBookings := upcomingBookings s @ filter (in_dashboard_upcoming rt today) [b],
          pastBookings := pastBookings s
            @ filter (\<lambda>b. \<not> in_dashboard_upcoming rt today b) [b] \<rparr>)"
    by (simp only: ClientDashboard_classify_step)
  also have "\<dots> = s\<lparr> upcomingBookings := upcomingBookings s
            @ filter (in_dashboard_upcoming rt today) (b # bs),
          pastBookings := pastBookings s
            @ filter (\<lambda>b. \<not> in_dashboard_upcoming rt today b) (b # bs) \<rparr>"
    unfolding Cons.IH by simp
  finally show ?case .
qed

lemma ClientDashboard_processBookings_eq:
  "ClientDashboard_processBookings rt now s =
     s\<lparr> upcomingBookings := Array_sort rt (checkinAscending rt)
            (filter (in_dashboard_upcoming rt (setHours0 rt (TimeValue now))) (allBookings s)),
        pastBookings := Array_sort rt (checkinDescending rt)
            (filter (\<lambda>b. \<not> in_dashboard_upcoming rt (setHours0 rt (TimeValue now)) b)
               (allBookings s)),
        recentBookings := take 5 (Array_sort rt (checkinDescending rt) (allBookings s)) \<rparr>"
  unfolding ClientDashboard_processBookings_def Let_def fold_ClientDashboard_classify by simp

subsection \<open>The three buckets of the bookings view\<close>

text \<open>
  C4. Every booking of the input list, compared with the one start-of-day snapshot
  \<open>today\<close> after its own dates are truncated to the start of their day: with status
  CONFIRMED or PENDING it is in upcoming (and in no other bucket) when check-in \<open>>\<close> today,
  in current when check-in \<open>\<le>\<close> today \<open>\<le>\<close> check-out, and in past otherwise; with status
  CANCELLED or COMPLETED it is in past whatever its dates.
\<close>

theorem MyBookings_bucket_rule:
  assumes "b \<in> set (allBookings s)"
    and "s' = MyBookings_processBookings rt now s"
    and "today = setHours0 rt (TimeValue now)"
    and "checkin = setHours0 rt (Date_parse rt (checkinDate b))"
    and "checkout = setHours0 rt (Date_parse rt (checkoutDate b))"
  shows "((isBookingStatus b = ''CONFIRMED'' \<or> isBookingStatus b = ''PENDING'') \<longrightarrow>
            (date_gt checkin today \<longrightarrow>
               b \<in> set (upcomingBookings s') \<and> b \<notin> set (currentBookings s')
               \<and> b \<notin> set (pastBookings s'))
          \<and> (date_le checkin today \<and> date_le today checkout \<longrightarrow>
               b \<in> set (currentBookings s') \<and> b \<notin> set (upcomingBookings s')
               \<and> b \<notin> set (pastBookings s'))
          \<and> (\<not> date_gt checkin today \<and> \<not> (date_le checkin today \<and> date_le today checkout) \<longrightarrow>
               b \<in> set (pastBookings s') \<and> b \<notin> set (upcomingBookings s')
               \<and> b \<notin> set (currentBookings s')))
       \<and> ((isBookingStatus b = ''CANCELLED'' \<or> isBookingStatus b = ''COMPLETED'') \<longrightarrow>
            b \<in> set (pastBookings s') \<and> b \<notin> set (upcomingBookings s')
            \<and> b \<notin> set (currentBookings s'))"
proof -
  have up: "b \<in> set (upcomingBookings s') \<longleftrightarrow> in_upcoming rt today b"
    and cur: "b \<in> set (currentBookings s') \<longleftrightarrow> in_current rt today b"
    and past: "b \<in> set (pastBookings s') \<longleftrightarrow> in_past rt today b"
    using assms(1) by (simp_all add: assms(2,3) MyBookings_processBookings_eq)
  show ?thesis
    unfolding up cur past in_past_def in_upcoming_def in_current_def
    using date_le_not_gt [of checkin today]
    by (auto simp: assms(4,5) date_ge_le)
qed

theorem MyBookings_bucket_rule_witness:
  "example_booking 4 ''CANCELLED'' ''2030-01-01'' ''2030-01-05'' \<in> set (allBookings example_view)
   \<and> example_booking 4 ''CANCELLED'' ''2030-01-01'' ''2030-01-05''
       \<in> set (pastBookings (MyBookings_processBookings utc example_now example_view))
   \<and> example_booking 1 ''CONFIRMED'' ''2025-06-05'' ''2025-06-08''
       \<in> set (upcomingBookings (MyBookings_processBookings utc example_now example_view))
   \<and> example_booking 2 ''CONFIRMED'' ''2025-05-28'' ''2025-06-03''
       \<in> set (currentBookings (MyBookings_processBookings utc example_now example_view))
   \<and> example_booking 3 ''CONFIRMED'' ''2025-05-01'' ''2025-05-05''
       \<in> set (pastBookings (MyBookings_processBookings utc example_now example_view))"
proof -
  have m4: "example_booking 4 ''CANCELLED'' ''2030-01-01'' ''2030-01-05''
              \<in> set (allBookings example_view)"
    and m1: "example_booking 1 ''CONFIRMED'' ''2025-06-05'' ''2025-06-08''
              \<in> set (allBookings example_view)"
    and m2: "example_booking 2 ''CONFIRMED'' ''2025-05-28'' ''2025-06-03''
              \<in> set (allBookings example_view)"
    and m3: "example_booking 3 ''CONFIRMED'' ''2025-05-01'' ''2025-05-05''
              \<in> set (allBookings example_view)"
    by (simp_all add: example_view_def example_bookings_def)
  have b4: "example_booking 4 ''CANCELLED'' ''2030-01-01'' ''2030-01-05''
       \<in> set (pastBookings (MyBookings_processBookings utc example_now example_view))"
    using MyBookings_bucket_rule [OF m4 refl refl refl refl]
    by (simp add: example_booking_def)
  have b1: "example_booking 1 ''CONFIRMED'' ''2025-06-05'' ''2025-06-08''
       \<in> set (upcomingBookings (MyBookings_processBookings utc example_now example_view))"
    using MyBookings_bucket_rule [OF m1 refl refl refl refl]
    by (simp add: example_booking_def example_now_def utc_eval)
  have b2: "example_booking 2 ''CONFIRMED'' ''2025-05-28'' ''2025-06-03''
       \<in> set (currentBookings (MyBookings_processBookings utc example_now example_view))"
    using MyBookings_bucket_rule [OF m2 refl refl refl refl]
    by (simp add: example_booking_def example_now_def utc_eval)
  have b3: "example_booking 3 ''CONFIRMED'' ''2025-05-01'' ''2025-05-05''
       \<in> set (pastBookings (MyBookings_processBookings utc example_now example_view))"
    using MyBookings_bucket_rule [OF m3 refl refl refl refl]
    by (simp add: example_booking_def example_now_def utc_eval)
  show ?thesis using m4 b4 b1 b2 b3 by (intro conjI)
qed

text \<open>
  C9. Classifying twice gives what classifying once gives: the second pass starts from
  the state the first one left and returns that same state, and the three buckets depend
  on the booking list and the snapshot only, not on what the buckets held before.
\<close>

theorem MyBookings_processBookings_idempotent:
  "MyBookings_processBookings rt now (MyBookings_processBookings rt now s)
     = MyBookings_processBookings rt now s
   \<and> (allBookings s = allBookings t \<longrightarrow>
        upcomingBookings (MyBookings_processBookings rt now s)
          = upcomingBookings (MyBookings_processBookings rt now t)
        \<and> currentBookings (MyBookings_processBookings rt now s)
          = currentBookings (MyBookings_processBookings rt now t)
        \<and> pastBookings (MyBookings_processBookings rt now s)
          = pastBookings (MyBookings_processBookings rt now t))"
  by (simp add: MyBookings_processBookings_eq)

theorem MyBookings_processBookings_idempotent_witness:
  "allBookings example_view = allBookings (example_view\<lparr> upcomingBookings := [] \<rparr>)
   \<and> upcomingBookings (MyBookings_processBookings utc example_now example_view)
       = upcomingBookings (MyBookings_processBookings utc example_now
           (example_view\<lparr> upcomingBookings := [] \<rparr>))
   \<and> MyBookings_processBookings utc example_now
         (MyBookings_processBookings utc example_now example_view)
       = MyBookings_processBookings utc example_now example_view"
  using MyBookings_processBookings_idempotent
          [of utc example_now example_view "example_view\<lparr> upcomingBookings := [] \<rparr>"]
  by simp

subsection \<open>The dashboard\<close>

lemma not_consistent_if_NaN:
  assumes "a \<in> set xs" and "b \<in> set xs" and "cmp a b = NaN"
  shows "\<not> consistent_comparator cmp xs"
  using assms by (auto simp: consistent_comparator_def list_all_iff)

lemma Array_sort_unparsed_example:
  "Array_sort utc (checkinDescending utc) example_unparsed_bookings = example_unparsed_bookings"
proof -
  have "\<not> consistent_comparator (checkinDescending utc) example_unparsed_bookings"
  proof (rule not_consistent_if_NaN)
    show "example_booking 22 ''PENDING'' ''TBD'' ''TBD'' \<in> set example_unparsed_bookings"
      by (simp add: example_unparsed_bookings_def)
    show "example_booking 22 ''PENDING'' ''TBD'' ''TBD'' \<in> set example_unparsed_bookings"
      by (simp add: example_unparsed_bookings_def)
    show "checkinDescending utc (example_booking 22 ''PENDING'' ''TBD'' ''TBD'')
            (example_booking 22 ''PENDING'' ''TBD'' ''TBD'') = NaN"
      by (simp add: checkinDescending_def example_booking_def utc_eval)
  qed
  then have "Array_sort utc (checkinDescending utc) example_unparsed_bookings
      = (let n = length example_unparsed_bookings;
             perm = implementation_order utc
                      (\<lambda>i j. if i < n \<and> j < n
                              then checkinDescending utc (example_unparsed_bookings ! i)
                                     (example_unparsed_bookings ! j)
                              else NaN) n
         in if sort perm = [0..<n] then map (\<lambda>i. example_unparsed_bookings ! i) perm
            else example_unparsed_bookings)"
    by (simp add: Array_sort_def)
  also have "\<dots> = example_unparsed_bookings"
    by code_simp
  finally show ?thesis .
qed

text \<open>
  C8, as stated, fails: seven bookings do not always give a recent list in descending
  order of check-in. When one check-in is not a date the comparator yields \<open>NaN\<close> on it
  and the array is left as it was: the booking of 2025-05-10 stays before the one of
  2025-07-10.
\<close>

theorem recentBookings_unsorted_counterexample:
  "length (allBookings example_unparsed_dashboard) = 7
   \<and> recentBookings (ClientDashboard_processBookings utc example_now example_unparsed_dashboard)
       = [example_booking 21 ''CONFIRMED'' ''2025-05-10'' ''2025-05-12'',
          example_booking 22 ''PENDING'' ''TBD'' ''TBD'',
          example_booking 23 ''CONFIRMED'' ''2025-07-10'' ''2025-07-12'',
          example_booking 24 ''COMPLETED'' ''2025-04-10'' ''2025-04-12'',
          example_booking 25 ''COMPLETED'' ''2025-03-10'' ''2025-03-12'']
   \<and> date_lt (Date_parse utc ''2025-05-10'') (Date_parse utc ''2025-07-10'')
   \<and> \<not> sorted_wrt (\<lambda>a b. date_ge (Date_parse utc (checkinDate a)) (Date_parse utc (checkinDate b)))
         (recentBookings
            (ClientDashboard_processBookings utc example_now example_unparsed_dashboard))"
proof -
  have recent: "recentBookings
      (ClientDashboard_processBookings utc example_now example_unparsed_dashboard)
       = [example_booking 21 ''CONFIRMED'' ''2025-05-10'' ''2025-05-12'',
          example_booking 22 ''PENDING'' ''TBD'' ''TBD'',
          example_booking 23 ''CONFIRMED'' ''2025-07-10'' ''2025-07-12'',
          example_booking 24 ''COMPLETED'' ''2025-04-10'' ''2025-04-12'',
          example_booking 25 ''COMPLETED'' ''2025-03-10'' ''2025-03-12'']"
    by (simp add: ClientDashboard_processBookings_eq example_unparsed_dashboard_def
          Array_sort_unparsed_example)
       (simp add: example_unparsed_bookings_def)
  have lt: "date_lt (Date_parse utc ''2025-05-10'') (Date_parse utc ''2025-07-10'')"
    by (simp add: utc_eval)
  have "\<not> date_ge (Date_parse utc ''2025-05-10'') (Date_parse utc ''2025-07-10'')"
    by (simp add: utc_eval)
  then have unsorted: "\<not> sorted_wrt
         (\<lambda>a b. date_ge (Date_parse utc (checkinDate a)) (Date_parse utc (checkinDate b)))
         (recentBookings
            (ClientDashboard_processBookings utc example_now example_unparsed_dashboard))"
    unfolding recent by (simp add: example_booking_def)
  have len: "length (allBookings example_unparsed_dashboard) = 7"
    by (simp add: example_unparsed_dashboard_def example_unparsed_bookings_def)
  show ?thesis using len recent lt unsorted by (intro conjI)
qed



text \<open>
  C10, as stated, fails: a CONFIRMED booking that checks in today is not always in current
  in the bookings view. With a check-out before today (2025-06-01 to 2025-05-30, today
  2025-06-01) the dashboard has it in upcoming and the bookings view in past.
\<close>

theorem day_boundary_not_current_counterexample:
  "example_booking 14 ''CONFIRMED'' ''2025-06-01'' ''2025-05-30''
       \<in> set (allBookings example_boundary_dashboard)
   \<and> allBookings example_boundary_view = allBookings example_boundary_dashboard
   \<and> setHours0 utc (Date_parse utc ''2025-06-01'') = setHours0 utc (TimeValue example_now)
   \<and> upcomingBookings
         (ClientDashboard_processBookings utc example_now example_boundary_dashboard)
       = [example_booking 14 ''CONFIRMED'' ''2025-06-01'' ''2025-05-30'']
   \<and> currentBookings (MyBookings_processBookings utc example_now example_boundary_view) = []
   \<and> pastBookings (MyBookings_processBookings utc example_now example_boundary_view)
       = [example_booking 14 ''CONFIRMED'' ''2025-06-01'' ''2025-05-30'']"
  by code_simp



subsection \<open>The payment page\<close>

lemma PaymentPage_handleError_message:
  "errorMessage (fst (PaymentPage_handleError e s)) = status_message e"
  "successMessage (fst (PaymentPage_handleError e s)) = successMessage s"
  "\<not> list_ex is_reserve (snd (PaymentPage_handleError e s))"
  "\<not> list_ex is_charge (snd (PaymentPage_handleError e s))"
  by (simp_all add: PaymentPage_handleError_def status_message_def)

lemma processPayment_no_reserve: "\<not> list_ex is_reserve (snd (processPayment s))"
  by (simp add: processPayment_def PaymentPage_showError_def split: option.split)

lemma processPayment_next_False:
  "processPayment_next False s =
     (s\<lparr> errorMessage := ''Payment processing failed'', successMessage := '''',
         isProcessing := False \<rparr>, [SetTimeout ClearErrorMessage 5000])"
  by (simp add: processPayment_next_def PaymentPage_showError_def)

lemma processPayment_error_no_reserve:
  "\<not> list_ex is_reserve (snd (processPayment_error e s))"
  using PaymentPage_handleError_message(3) [of e s]
  by (simp add: processPayment_error_def split_beta)

text \<open>An account number made of a no-break space only is refused like an empty one.\<close>

lemma processPayment_blank_account:
  "processPayment (example_page\<lparr> accountNumber := [160] \<rparr>)
     = (example_page\<lparr> accountNumber := [160],
                        errorMessage := ''Please enter your account number'' \<rparr>,
        [SetTimeout ClearErrorMessage 5000])"
  by (simp add: processPayment_def PaymentPage_showError_def trim_def is_space_def
        example_page_def)

text \<open>
  C2. When the charge answers \<open>false\<close> the callback issues nothing but the timer of its
  error message: no reservation request. Over a whole attempt, a reservation request in
  the trace implies that the charge answered \<open>true\<close>.
\<close>

theorem reserve_only_after_successful_charge:
  "snd (processPayment_next False s) = [SetTimeout ClearErrorMessage 5000]
   \<and> \<not> list_ex is_reserve (snd (processPayment_next False s))
   \<and> \<not> list_ex is_reserve (snd (reservation_attempt s (Next False) reserve))
   \<and> (list_ex is_reserve (snd (reservation_attempt s charge reserve)) \<longrightarrow> charge = Next True)"
proof -
  have a: "snd (processPayment_next False s) = [SetTimeout ClearErrorMessage 5000]" for s
    by (simp add: processPayment_next_False)
  have b: "\<not> list_ex is_reserve (snd (reservation_attempt s c reserve))"
    if "c \<noteq> Next True" for c
  proof (cases c)
    case (Next ok)
    with that have "ok = False" by simp
    then show ?thesis
      using processPayment_no_reserve [of s] Next
      by (simp add: reservation_attempt_def split_beta Let_def a)
  next
    case (Error err)
    then show ?thesis
      using processPayment_no_reserve [of s]
            processPayment_error_no_reserve [of err "fst (processPayment s)"]
      by (simp add: reservation_attempt_def split_beta Let_def)
  qed
  show ?thesis using b [of "Next False"] b [of charge] by (auto simp: a)
qed

theorem reserve_only_after_successful_charge_witness:
  "list_ex is_reserve (snd (reservation_attempt example_page (Next True) (Next booking_created)))
   \<and> \<not> list_ex is_reserve (snd (reservation_attempt example_page (Next False) (Next booking_created)))
   \<and> snd (reservation_attempt example_page (Next False) (Next booking_created))
       = [Http (POST_alwaysTrue_payment (PaymentRequest None (Num 42) (code_units ''ACC-1001'') (Num 6000))),
          SetTimeout ClearErrorMessage 5000]"
proof -
  have issued: "list_ex is_reserve
      (snd (reservation_attempt example_page (Next True) (Next booking_created)))"
    by code_simp
  have trace: "snd (reservation_attempt example_page (Next False) (Next booking_created))
       = [Http (POST_alwaysTrue_payment (PaymentRequest None (Num 42) (code_units ''ACC-1001'') (Num 6000))),
          SetTimeout ClearErrorMessage 5000]"
    by code_simp
  from reserve_only_after_successful_charge
         [of example_page "Next booking_created" "Next True"] issued trace
  show ?thesis by simp
qed

text \<open>
  C1, as stated, fails: there is no error of its own for a charge that succeeded followed
  by a reservation that failed. When the reservation request fails for want of a
  connection, the page shows the connectivity message, the very message it shows when the
  charge request itself cannot connect.
\<close>

theorem partial_commit_generic_message_counterexample:
  "list_ex is_charge (snd (reservation_attempt example_page (Next True) (Error connection_refused)))
   \<and> list_ex is_reserve (snd (reservation_attempt example_page (Next True) (Error connection_refused)))
   \<and> errorMessage (fst (reservation_attempt example_page (Next True) (Error connection_refused)))
       = ''Cannot connect to server. Please check if the backend is running.''
   \<and> \<not> list_ex is_reserve
         (snd (reservation_attempt example_page (Error connection_refused) (Next booking_created)))
   \<and> errorMessage (fst (reservation_attempt example_page (Error connection_refused)
                            (Next booking_created)))
       = errorMessage (fst (reservation_attempt example_page (Next True)
                            (Error connection_refused)))"
  by code_simp

text \<open>
  C1, amended. After a valid click (account number given, payment data present) with a
  successful charge, both requests have been issued; a reservation answer with
  \<open>success = false\<close> leaves the message \<open>Booking confirmation failed.\<close>, and a
  reservation request that fails with an HTTP error leaves the message \<open>handleError\<close>
  derives from its status, the same one a failed charge request leaves, while the success
  message of the payment stays on the page.
\<close>

theorem partial_commit_message:
  assumes "trim (accountNumber s) \<noteq> []" and "paymentData s = Some pd"
  shows "list_ex is_charge (snd (reservation_attempt s (Next True) reserve))
     \<and> list_ex is_reserve (snd (reservation_attempt s (Next True) reserve))
     \<and> (\<not> success r \<longrightarrow>
          errorMessage (fst (reservation_attempt s (Next True) (Next r)))
            = ''Booking confirmation failed.'')
     \<and> errorMessage (fst (reservation_attempt s (Next True) (Error e))) = status_message e
     \<and> successMessage (fst (reservation_attempt s (Next True) (Error e)))
          = ''Payment processed successfully!''
     \<and> errorMessage (fst (reservation_attempt s (Error e) reserve)) = status_message e"
proof -
  define s1 where "s1 = s\<lparr> isProcessing := True, errorMessage := '''' \<rparr>"
  define s2 where "s2 = s\<lparr> isProcessing := False, errorMessage := '''',
         successMessage := ''Payment processed successfully!'', accountNumber := [] \<rparr>"
  have acc: "accountNumber s \<noteq> []" using assms(1) by (auto simp: trim_def)
  have p: "processPayment s =
     (s1, [Http (POST_alwaysTrue_payment
         (PaymentRequest
            (case pay_bookingId pd of None \<Rightarrow> None
                                    | Some n \<Rightarrow> if n = 0 then None else Some n)
            (pay_userId pd) (trim (accountNumber s)) (pay_totalAmount pd)))])"
    using assms acc by (simp add: processPayment_def s1_def)
  have n: "processPayment_next True s1 =
     (s2, [Http (POST_makeBooking
         (BookingRequest (pay_propertyId pd) (pay_userId pd) (pay_checkinDate pd)
            (pay_checkoutDate pd) (pay_hasExtraCot pd) (pay_hasDeepClean pd)))])"
    using assms(2)
    by (simp add: processPayment_next_def makeBooking_def PaymentPage_showSuccess_def
          s1_def s2_def)
  have att: "reservation_attempt s (Next True) rsp =
     (fst (case rsp of Next r \<Rightarrow> makeBooking_next r s2 | Error err \<Rightarrow> makeBooking_error err s2),
      snd (processPayment s) @ snd (processPayment_next True s1)
        @ snd (case rsp of Next r \<Rightarrow> makeBooking_next r s2
                         | Error err \<Rightarrow> makeBooking_error err s2))" for rsp
    by (cases rsp; simp add: reservation_attempt_def p n split_beta)
  have c1: "list_ex is_charge (snd (reservation_attempt s (Next True) reserve))"
    unfolding att by (simp add: p)
  have c2: "list_ex is_reserve (snd (reservation_attempt s (Next True) reserve))"
    unfolding att by (simp add: n)
  have c3: "errorMessage (fst (reservation_attempt s (Next True) (Next r)))
            = ''Booking confirmation failed.''" if "\<not> success r"
    unfolding att using that by (simp add: makeBooking_next_def PaymentPage_showError_def)
  have c4: "errorMessage (fst (reservation_attempt s (Next True) (Error e))) = status_message e"
    unfolding att
    by (simp add: makeBooking_error_def PaymentPage_handleError_message)
  have c5: "successMessage (fst (reservation_attempt s (Next True) (Error e)))
          = ''Payment processed successfully!''"
    unfolding att
    by (simp add: makeBooking_error_def PaymentPage_handleError_message s2_def)
  have c6: "errorMessage (fst (reservation_attempt s (Error e) reserve)) = status_message e"
    using PaymentPage_handleError_message(3) [of e s1]
    by (simp add: reservation_attempt_def p processPayment_error_def split_beta
          PaymentPage_handleError_message)
  show ?thesis using c1 c2 c3 c4 c5 c6 by simp
qed

theorem partial_commit_message_witness:
  "trim (accountNumber example_page) \<noteq> []
   \<and> paymentData example_page = Some example_paymentData
   \<and> \<not> success booking_refused
   \<and> errorMessage (fst (reservation_attempt example_page (Next True) (Next booking_refused)))
       = ''Booking confirmation failed.''
   \<and> errorMessage (fst (reservation_attempt example_page (Next True) (Error connection_refused)))
       = status_message connection_refused"
proof -
  have a: "trim (accountNumber example_page) \<noteq> []"
    by (simp add: example_page_def trim_def is_space_def code_units_def)
  have b: "paymentData example_page = Some example_paymentData"
    by (simp add: example_page_def)
  have c: "\<not> success booking_refused"
    by (simp add: booking_refused_def)
  from partial_commit_message [OF a b, of "Next booking_created" booking_refused
         connection_refused] a b c
  show ?thesis by simp
qed

subsection \<open>The stepper\<close>

text \<open>
  C5. At the Dates step, \<open>nextStep\<close> leaves the step at 0 when a date is missing, when
  check-out \<open>\<le>\<close> check-in, and when the check-in lies before the start of today, each
  with a message of its own; otherwise it moves to step 1 and changes nothing else. The
  step after the call is 1 exactly when the form is valid.
\<close>

theorem nextStep_dates_gate:
  assumes "currentStep s = 0" and "form = bookingForm s"
    and "today = setHours0 rt (TimeValue now)"
  shows "(checkinDate_value form = None \<or> checkoutDate_value form = None \<longrightarrow>
            currentStep (fst (nextStep rt now s)) = 0
            \<and> errorMessage (fst (nextStep rt now s))
                = ''Please select both check-in and check-out dates'')
     \<and> (checkinDate_value form = Some cin \<and> checkoutDate_value form = Some cout \<longrightarrow>
           (date_le cout cin \<longrightarrow>
              currentStep (fst (nextStep rt now s)) = 0
              \<and> errorMessage (fst (nextStep rt now s))
                  = ''Check-out date must be after check-in date'')
         \<and> (\<not> date_le cout cin \<and> date_lt cin today \<longrightarrow>
              currentStep (fst (nextStep rt now s)) = 0
              \<and> errorMessage (fst (nextStep rt now s))
                  = ''Check-in date cannot be in the past'')
         \<and> (\<not> date_le cout cin \<and> \<not> date_lt cin today \<longrightarrow>
              nextStep rt now s = (s\<lparr> currentStep := 1 \<rparr>, [])))
     \<and> (currentStep (fst (nextStep rt now s)) = 1)
         = (\<not> form_invalid (dateRangeValidator rt now form) form)
     \<and> ''Check-out date must be after check-in date'' \<noteq> ''Check-in date cannot be in the past''"
proof -
  have missing: "currentStep (fst (nextStep rt now s)) = 0
            \<and> errorMessage (fst (nextStep rt now s))
                = ''Please select both check-in and check-out dates''"
    if "checkinDate_value form = None \<or> checkoutDate_value form = None"
    using that assms(1,2)
    by (auto simp: nextStep_def Let_def PropertyDetails_showError_def)
  have present: "(date_le cout cin \<longrightarrow>
              currentStep (fst (nextStep rt now s)) = 0
              \<and> errorMessage (fst (nextStep rt now s))
                  = ''Check-out date must be after check-in date'')
         \<and> (\<not> date_le cout cin \<and> date_lt cin today \<longrightarrow>
              currentStep (fst (nextStep rt now s)) = 0
              \<and> errorMessage (fst (nextStep rt now s))
                  = ''Check-in date cannot be in the past'')
         \<and> (\<not> date_le cout cin \<and> \<not> date_lt cin today \<longrightarrow>
              nextStep rt now s = (s\<lparr> currentStep := 1 \<rparr>, []))"
    if "checkinDate_value form = Some cin" "checkoutDate_value form = Some cout"
    using that assms
    by (simp add: nextStep_def Let_def PropertyDetails_showError_def dateRangeValidator_def
          has_invalidDateRange_def has_pastDate_def)
  have gate: "(currentStep (fst (nextStep rt now s)) = 1)
         = (\<not> form_invalid (dateRangeValidator rt now form) form)"
  proof (cases "checkinDate_value form = None \<or> checkoutDate_value form = None")
    case True
    then show ?thesis using missing by (auto simp: form_invalid_def)
  next
    case False
    then obtain a b where ab: "checkinDate_value form = Some a" "checkoutDate_value form = Some b"
      by auto
    then show ?thesis
      using assms
      by (simp add: nextStep_def Let_def PropertyDetails_showError_def dateRangeValidator_def
            has_invalidDateRange_def has_pastDate_def form_invalid_def)
  qed
  show ?thesis using missing present gate by simp
qed

theorem nextStep_dates_gate_witness:
  "currentStep (example_stepper (example_form ''2025-05-20'' ''2025-05-18'')) = 0
   \<and> nextStep utc example_now (example_stepper form_reset)
       = ((example_stepper (form_reset\<lparr> checkinDate_touched := True,
                                          checkoutDate_touched := True \<rparr>))
             \<lparr> errorMessage := ''Please select both check-in and check-out dates'' \<rparr>,
          [SetTimeout ClearErrorMessage 5000])
   \<and> nextStep utc example_now (example_stepper (example_form ''2025-05-20'' ''2025-05-18''))
       = ((example_stepper (example_form ''2025-05-20'' ''2025-05-18''))
             \<lparr> errorMessage := ''Check-out date must be after check-in date'' \<rparr>,
          [SetTimeout ClearErrorMessage 5000])
   \<and> nextStep utc example_now (example_stepper (example_form ''2025-05-20'' ''2025-05-25''))
       = ((example_stepper (example_form ''2025-05-20'' ''2025-05-25''))
             \<lparr> errorMessage := ''Check-in date cannot be in the past'' \<rparr>,
          [SetTimeout ClearErrorMessage 5000])
   \<and> currentStep (fst (nextStep utc example_now
         (example_stepper (example_form ''2025-06-10'' ''2025-06-12'')))) = 1"
proof -
  have step: "currentStep (example_stepper f) = 0" "bookingForm (example_stepper f) = f" for f
    by (simp_all add: example_stepper_def)
  have ok: "\<not> form_invalid
      (dateRangeValidator utc example_now (example_form ''2025-06-10'' ''2025-06-12''))
      (example_form ''2025-06-10'' ''2025-06-12'')"
    by (simp add: form_invalid_def dateRangeValidator_def example_form_def example_now_def utc_eval)
  have "currentStep (fst (nextStep utc example_now
         (example_stepper (example_form ''2025-06-10'' ''2025-06-12'')))) = 1"
    using nextStep_dates_gate [OF step(1) step(2) [symmetric] refl,
            of "example_form ''2025-06-10'' ''2025-06-12''" utc example_now] ok
    by simp
  moreover have "nextStep utc example_now (example_stepper form_reset)
       = ((example_stepper (form_reset\<lparr> checkinDate_touched := True,
                                          checkoutDate_touched := True \<rparr>))
             \<lparr> errorMessage := ''Please select both check-in and check-out dates'' \<rparr>,
          [SetTimeout ClearErrorMessage 5000])"
    by code_simp
  moreover have "nextStep utc example_now (example_stepper (example_form ''2025-05-20'' ''2025-05-18''))
       = ((example_stepper (example_form ''2025-05-20'' ''2025-05-18''))
             \<lparr> errorMessage := ''Check-out date must be after check-in date'' \<rparr>,
          [SetTimeout ClearErrorMessage 5000])"
    by code_simp
  moreover have "currentStep (fst (nextStep utc example_now
         (example_stepper (example_form ''2025-05-20'' ''2025-05-18'')))) = 0
     \<and> errorMessage (fst (nextStep utc example_now
         (example_stepper (example_form ''2025-05-20'' ''2025-05-18''))))
       = ''Check-out date must be after check-in date''"
    using nextStep_dates_gate [OF step(1) step(2) [symmetric] refl,
            of "example_form ''2025-05-20'' ''2025-05-18''" utc example_now
               "iso_date ''2025-05-20''" "iso_date ''2025-05-18''"]
    by (simp add: example_form_def utc_eval)
  moreover have "nextStep utc example_now (example_stepper (example_form ''2025-05-20'' ''2025-05-25''))
       = ((example_stepper (example_form ''2025-05-20'' ''2025-05-25''))
             \<lparr> errorMessage := ''Check-in date cannot be in the past'' \<rparr>,
          [SetTimeout ClearErrorMessage 5000])"
    by code_simp
  ultimately show ?thesis using step(1) by simp
qed

subsection \<open>Cancelling and modifying\<close>





end
